theory Spec2Isabelle
  imports Complex_Main "HOL-Library.Multiset" "HOL-Library.Product_Lexorder"
    "HOL-Library.Char_ord" "HOL-Library.List_Lexorder" "HOL-Library.Sublist"
begin

section \<open>Values and errors\<close>

text \<open>
  \<^verbatim>\<open>app.py\<close> is a pandas script. Its own functions (\<open>normalizar\<close>, \<open>leer_csv_seguro\<close>,
  \<open>load_data\<close>) and the query expressions of the three display modes are embedded below;
  the pandas, numpy and unicodedata operations they call are modelled by the behaviour
  their documentation gives, each next to the place that uses it.

  A Python \<open>str\<close> is a sequence of Unicode code points, here \<open>nat list\<close>. Column names
  and the fixed texts of messages are ASCII and are written as HOL strings. A float is a
  rational or NaN (\<open>None\<close>): rounding and infinities are outside the model.
\<close>

type_synonym ustr = "nat list"
type_synonym pyfloat = "rat option"

text \<open>
  One value of a column as \<open>read_csv\<close> or \<open>read_excel\<close> delivers it. In a column that
  \<open>load_data\<close> converts to numbers, \<open>Num r\<close> is a number or a text that pandas' numeric
  parser reads as the number \<open>r\<close>, \<open>Txt s\<close> is any other text and \<open>Blank\<close> is an empty
  cell (NaN). In a column of texts (\<open>song\<close>, \<open>word\<close>, \<open>nombre_topic\<close>, \<open>lyrics\<close>),
  \<open>Txt s\<close> is a \<open>str\<close>, and \<open>Num r\<close> and \<open>Blank\<close> are the values that are no \<open>str\<close>: a
  number and NaN.
\<close>

datatype cell = Num rat | Txt ustr | Blank

text \<open>The exceptions that leave the functions below, with their message.\<close>

datatype error =
    ValueError string
  | TypeError string
  | KeyError string
  | ReadError string

section \<open>Utilidades: \<open>normalizar\<close>\<close>

text \<open>
  The tables of \<open>unicodedata\<close> and of \<open>str.lower\<close> are not part of the repository; they
  are a parameter. \<open>lower_of c\<close> is the lower-case mapping of \<open>c\<close> (\<open>[c]\<close> when there is
  none), \<open>decomp_of c\<close> its full compatibility decomposition (\<open>[c]\<close> when there is none),
  \<open>combining_of c\<close> its canonical combining class, \<open>unicodedata.combining(c)\<close>, and
  \<open>cased_of\<close> and \<open>case_ignorable_of\<close> are the properties Cased and Case_Ignorable, which
  \<open>str.lower\<close> consults around a capital sigma.
\<close>

record ucd =
  lower_of :: "nat \<Rightarrow> nat list"
  decomp_of :: "nat \<Rightarrow> nat list"
  combining_of :: "nat \<Rightarrow> nat"
  cased_of :: "nat \<Rightarrow> bool"
  case_ignorable_of :: "nat \<Rightarrow> bool"

text \<open>\<open>str.isspace\<close> on one code point: the white space that \<open>str.strip()\<close> removes.\<close>

definition isspace :: "nat \<Rightarrow> bool" where
  "isspace c \<longleftrightarrow>
     (9 \<le> c \<and> c \<le> 13) \<or> (28 \<le> c \<and> c \<le> 32) \<or> c = 133 \<or> c = 160 \<or> c = 5760 \<or>
     (8192 \<le> c \<and> c \<le> 8202) \<or> c = 8232 \<or> c = 8233 \<or> c = 8239 \<or> c = 8287 \<or> c = 12288"

definition strip :: "ustr \<Rightarrow> ustr" where
  "strip s = rev (dropWhile isspace (rev (dropWhile isspace s)))"

text \<open>
  \<open>str.lower()\<close> maps every code point by its lower-case mapping, but for the capital
  sigma U+03A3 (931): it becomes the final sigma U+03C2 (962) when the nearest code point
  before it that is not case-ignorable is cased, and the nearest such code point after it
  is not cased or there is none; else it becomes U+03C3 (963). \<open>before\<close> is the text
  before the code point, the nearest first.
\<close>

definition final_sigma :: "ucd \<Rightarrow> ustr \<Rightarrow> ustr \<Rightarrow> bool" where
  "final_sigma U before after \<longleftrightarrow>
     (case dropWhile (case_ignorable_of U) before of [] \<Rightarrow> False | c # cs \<Rightarrow> cased_of U c) \<and>
     (case dropWhile (case_ignorable_of U) after of [] \<Rightarrow> True | c # cs \<Rightarrow> \<not> cased_of U c)"

fun lower_from :: "ucd \<Rightarrow> ustr \<Rightarrow> ustr \<Rightarrow> ustr" where
  "lower_from U before [] = []"
| "lower_from U before (c # after) =
     (if c = 931 then [if final_sigma U before after then 962 else 963] else lower_of U c)
       @ lower_from U (c # before) after"

definition lower :: "ucd \<Rightarrow> ustr \<Rightarrow> ustr" where
  "lower U s = lower_from U [] s"

text \<open>
  \<open>unicodedata.normalize("NFKD", s)\<close>: every code point is replaced by its full
  compatibility decomposition, then the canonical ordering is applied: a combining mark
  moves left over the marks of a greater combining class that stand directly before it.
  \<open>put_mark\<close> adds one code point to the reversed output.
\<close>

fun put_mark :: "ucd \<Rightarrow> nat \<Rightarrow> ustr \<Rightarrow> ustr" where
  "put_mark U c [] = [c]"
| "put_mark U c (d # ds) =
     (if combining_of U c \<noteq> 0 \<and> combining_of U c < combining_of U d
      then d # put_mark U c ds else c # d # ds)"

definition canonical_order :: "ucd \<Rightarrow> ustr \<Rightarrow> ustr" where
  "canonical_order U s = rev (foldl (\<lambda>acc c. put_mark U c acc) [] s)"

definition NFKD :: "ucd \<Rightarrow> ustr \<Rightarrow> ustr" where
  "NFKD U s = canonical_order U (concat (map (decomp_of U) s))"

text \<open>
  \<^verbatim>\<open>
  def normalizar(s: str):
      if isinstance(s, str):
          s = s.strip().lower()
          s = "".join(c for c in unicodedata.normalize("NFKD", s) if not unicodedata.combining(c))
          return s
      return s
  \<close>
\<close>

fun normalizar :: "ucd \<Rightarrow> cell \<Rightarrow> cell" where
  "normalizar U (Txt s) =
     Txt (filter (\<lambda>c. combining_of U c = 0) (NFKD U (lower U (strip s))))"
| "normalizar U v = v"

text \<open>
  A code point is \<open>settled\<close> when \<open>str.lower\<close> and the decomposition leave it as it is.
  (Under the tables of Unicode a code point of a full decomposition is never decomposed
  further, so for the code points of a key only the first two conditions can fail.)
\<close>

definition settled :: "ucd \<Rightarrow> nat \<Rightarrow> bool" where
  "settled U e \<longleftrightarrow> e \<noteq> 931 \<and> lower_of U e = [e] \<and> decomp_of U e = [e]"

text \<open>A text has no white space around it when \<open>strip\<close> has nothing to remove.\<close>

definition stripped :: "ustr \<Rightarrow> bool" where
  "stripped r \<longleftrightarrow> r = [] \<or> (\<not> isspace (hd r) \<and> \<not> isspace (last r))"

text \<open>
  An excerpt of the Unicode character database (version 14): it is exact for the code
  points 0 to 255 (ASCII and Latin-1), for the code points that their decompositions
  contain (the combining marks U+0300 to U+0304, U+0308, U+030A, U+0327, the Greek mu
  U+03BC and the fraction slash U+2044), for the three sigmas U+03A3, U+03C2, U+03C3 and
  for the trade mark sign U+2122, whose compatibility decomposition is the two capital
  letters \<open>TM\<close>. Outside these code points the functions are placeholders, and no
  statement below evaluates them there.
\<close>

definition decomp_table :: "(nat \<times> nat list) list" where
  "decomp_table =
     [(160, [32]), (168, [32, 776]), (170, [97]), (175, [32, 772]), (178, [50]),
      (179, [51]), (180, [32, 769]), (181, [956]), (184, [32, 807]), (185, [49]),
      (186, [111]), (188, [49, 8260, 52]), (189, [49, 8260, 50]), (190, [51, 8260, 52]),
      (192, [65, 768]), (193, [65, 769]), (194, [65, 770]), (195, [65, 771]),
      (196, [65, 776]), (197, [65, 778]), (199, [67, 807]), (200, [69, 768]),
      (201, [69, 769]), (202, [69, 770]), (203, [69, 776]), (204, [73, 768]),
      (205, [73, 769]), (206, [73, 770]), (207, [73, 776]), (209, [78, 771]),
      (210, [79, 768]), (211, [79, 769]), (212, [79, 770]), (213, [79, 771]),
      (214, [79, 776]), (217, [85, 768]), (218, [85, 769]), (219, [85, 770]),
      (220, [85, 776]), (221, [89, 769]), (224, [97, 768]), (225, [97, 769]),
      (226, [97, 770]), (227, [97, 771]), (228, [97, 776]), (229, [97, 778]),
      (231, [99, 807]), (232, [101, 768]), (233, [101, 769]), (234, [101, 770]),
      (235, [101, 776]), (236, [105, 768]), (237, [105, 769]), (238, [105, 770]),
      (239, [105, 776]), (241, [110, 771]), (242, [111, 768]), (243, [111, 769]),
      (244, [111, 770]), (245, [111, 771]), (246, [111, 776]), (249, [117, 768]),
      (250, [117, 769]), (251, [117, 770]), (252, [117, 776]), (253, [121, 769]),
      (255, [121, 776]), (8482, [84, 77])]"

definition ucd_excerpt :: ucd where
  "ucd_excerpt = \<lparr>
     lower_of = (\<lambda>c. if (65 \<le> c \<and> c \<le> 90) \<or> (192 \<le> c \<and> c \<le> 222 \<and> c \<noteq> 215)
                      then [c + 32] else if c = 931 then [963] else [c]),
     decomp_of = (\<lambda>c. case map_of decomp_table c of None \<Rightarrow> [c] | Some d \<Rightarrow> d),
     combining_of = (\<lambda>c. if (768 \<le> c \<and> c \<le> 772) \<or> c = 776 \<or> c = 778 then 230
                          else if c = 807 then 202 else 0),
     cased_of = (\<lambda>c. (65 \<le> c \<and> c \<le> 90) \<or> (97 \<le> c \<and> c \<le> 122) \<or>
                      c = 170 \<or> c = 181 \<or> c = 186 \<or>
                      (192 \<le> c \<and> c \<le> 255 \<and> c \<noteq> 215 \<and> c \<noteq> 247) \<or>
                      c = 931 \<or> c = 956 \<or> c = 962 \<or> c = 963),
     case_ignorable_of = (\<lambda>c. c = 39 \<or> c = 46 \<or> c = 58 \<or> c = 94 \<or> c = 96 \<or> c = 168 \<or>
                      c = 173 \<or> c = 175 \<or> c = 180 \<or> c = 183 \<or> c = 184 \<or>
                      (768 \<le> c \<and> c \<le> 772) \<or> c = 776 \<or> c = 778 \<or> c = 807) \<rparr>"

section \<open>Utilidades: \<open>leer_csv_seguro\<close>\<close>

text \<open>
  \<^verbatim>\<open>
  def leer_csv_seguro(path):
      try:
          return pd.read_csv(path, encoding="utf-8")
      except UnicodeDecodeError:
          return pd.read_csv(path, encoding="latin-1")
      except Exception:
          # ultimo intento, cp1252 tipico de Windows
          return pd.read_csv(path, encoding="cp1252")
  \<close>
  \<open>pd.read_csv\<close> is the parameter \<open>read_csv\<close>: what the read of the path gives under each
  encoding. Both handlers belong to the one \<open>try\<close>, whose body is the UTF-8 read only: an
  exception of the Latin-1 read or of the cp1252 read leaves the function. The result
  comes with the list of the encodings that were tried, in order. (\<open>st.cache_data\<close> only
  remembers the result of an earlier call.) A \<open>UnicodeDecodeError\<close> that leaves the
  function is a \<open>ValueError\<close> of Python; any other exception of a read is a \<open>ReadError\<close>
  here, with its name.
\<close>

datatype encoding = Utf8 | Latin1 | Cp1252

datatype 'a attempt =
    Parsed 'a
  | UnicodeDecodeError
  | Failed string \<comment> \<open>any other exception, with its name\<close>

fun raise_or_return :: "'a attempt \<Rightarrow> error + 'a" where
  "raise_or_return (Parsed df) = Inr df"
| "raise_or_return UnicodeDecodeError = Inl (ValueError ''UnicodeDecodeError'')"
| "raise_or_return (Failed e) = Inl (ReadError e)"

definition leer_csv_seguro :: "(encoding \<Rightarrow> 'a attempt) \<Rightarrow> encoding list \<times> (error + 'a)" where
  "leer_csv_seguro read_csv =
     (case read_csv Utf8 of
        Parsed df \<Rightarrow> ([Utf8], Inr df)
      | UnicodeDecodeError \<Rightarrow> ([Utf8, Latin1], raise_or_return (read_csv Latin1))
      | Failed e \<Rightarrow> ([Utf8, Cp1252], raise_or_return (read_csv Cp1252)))"

section \<open>\<open>load_data\<close>\<close>

text \<open>
  A data frame as it was read: the names of its columns and its rows. A row has one field
  for every column that \<open>load_data\<close> uses; the fields of a column that the frame lacks
  are never read, because the check of the columns comes first. The columns that
  \<open>load_data\<close> converts hold cells. \<open>dominant_prob\<close> is never converted and every query
  compares it as a number: it is taken as the float column that the schema declares, a
  number or NaN.
\<close>

record 'r frame =
  columns :: "string list"
  rows :: "'r list"

record raw_topic_word =
  tw_topic :: cell
  tw_word :: cell
  tw_weight :: cell
  tw_rank :: cell

record raw_assignment =
  tc_song :: cell
  tc_year :: cell
  tc_dominant_topic :: cell
  tc_nombre_topic :: cell
  tc_dominant_prob :: pyfloat
  tc_Topic_1 :: cell
  tc_Topic_2 :: cell
  tc_Topic_3 :: cell
  tc_Topic_4 :: cell
  tc_Topic_5 :: cell

record raw_lyric =
  xl_song :: cell
  xl_year :: cell
  xl_lyrics :: cell

text \<open>The three frames after \<open>load_data\<close>.\<close>

record topic_word =
  topic :: int
  word :: cell
  weight :: pyfloat
  rank :: pyfloat

record assignment =
  song :: cell
  year :: "int option"
  dominant_topic :: int
  nombre_topic :: cell
  dominant_prob :: pyfloat
  Topic_1 :: pyfloat
  Topic_2 :: pyfloat
  Topic_3 :: pyfloat
  Topic_4 :: pyfloat
  Topic_5 :: pyfloat
  song_norm :: cell

record lyric =
  l_song :: cell
  l_year :: "int option"
  lyrics :: cell
  l_song_norm :: cell

text \<open>\<open>pd.to_numeric(col, errors="coerce")\<close>: what is not a number becomes NaN.\<close>

fun to_numeric :: "cell \<Rightarrow> pyfloat" where
  "to_numeric (Num r) = Some r"
| "to_numeric (Txt s) = None"
| "to_numeric Blank = None"

definition trunc :: "rat \<Rightarrow> int" where
  "trunc r = (if r < 0 then \<lceil>r\<rceil> else \<lfloor>r\<rfloor>)"

text \<open>
  The cast of a float to numpy's \<open>int64\<close>: the fraction is cut off; a value that does not
  fit into 64 bits gives the smallest \<open>int64\<close> (the result of the conversion on x86-64).
\<close>

definition int64_of_float :: "rat \<Rightarrow> int" where
  "int64_of_float r =
     (if - (2 ^ 63) \<le> trunc r \<and> trunc r < 2 ^ 63 then trunc r else - (2 ^ 63))"

text \<open>
  \<open>.astype(int)\<close> on a numeric column: numpy's \<open>int64\<close> has no missing value, so a NaN
  raises \<open>IntCastingNaNError\<close>, a \<open>ValueError\<close>; the other values are cast.
\<close>

definition astype_int :: "pyfloat list \<Rightarrow> error + int list" where
  "astype_int col =
     (if None \<in> set col
      then Inl (ValueError ''Cannot convert non-finite values (NA or inf) to integer'')
      else Inr (map (\<lambda>v. int64_of_float (the v)) col))"

text \<open>
  \<open>.astype("Int64")\<close>, the nullable integer type: NaN becomes \<open>pd.NA\<close>; the other values
  are cast to \<open>int64\<close> and compared with the column, and a value that the cast has changed
  (a number with a fraction, a number that does not fit into 64 bits) raises a
  \<open>TypeError\<close>.
\<close>

definition astype_Int64 :: "pyfloat list \<Rightarrow> error + int option list" where
  "astype_Int64 col =
     (if list_ex (\<lambda>v. case v of None \<Rightarrow> False
                           | Some r \<Rightarrow> of_int (int64_of_float r) \<noteq> r) col
      then Inl (TypeError ''cannot safely cast non-equivalent float64 to int64'')
      else Inr (map (map_option int64_of_float) col))"

text \<open>
  \<open>topic_words["topic"].astype(int)\<close> works on the column as it was read, without
  \<open>to_numeric\<close>: a text that is no number and an empty cell raise a \<open>ValueError\<close> (of
  \<open>int()\<close> or of the cast; the message here stands for both); a column of numbers is
  cast to \<open>int64\<close>.
\<close>

definition astype_int_read :: "cell list \<Rightarrow> error + int list" where
  "astype_int_read col =
     (if list_all (\<lambda>c. case c of Num r \<Rightarrow> True | _ \<Rightarrow> False) col
      then Inr (map (\<lambda>c. case c of Num r \<Rightarrow> int64_of_float r | _ \<Rightarrow> 0) col)
      else Inl (ValueError ''cannot convert to integer''))"

text \<open>The required columns, in the order of the source, and \<open>sorted(req)\<close> in the message.\<close>

definition req_tw :: "string list" where
  "req_tw = [''topic'', ''word'', ''weight'', ''rank'']"

definition req_tc :: "string list" where
  "req_tc = [''song'', ''year'', ''dominant_topic'', ''nombre_topic'', ''dominant_prob'',
             ''Topic_1'', ''Topic_2'', ''Topic_3'', ''Topic_4'', ''Topic_5'']"

definition req_shak :: "string list" where
  "req_shak = [''song'', ''year'', ''lyrics'']"

definition issubset :: "string list \<Rightarrow> string list \<Rightarrow> bool" where
  "issubset req cols = list_all (\<lambda>c. c \<in> set cols) req"

definition quoted :: "string \<Rightarrow> string" where
  "quoted c = CHR 0x27 # c @ [CHR 0x27]"

fun joined :: "string list \<Rightarrow> string" where
  "joined [] = []"
| "joined [c] = c"
| "joined (c # d # cs) = c @ '', '' @ joined (d # cs)"

definition repr_list :: "string list \<Rightarrow> string" where
  "repr_list cols = ''['' @ joined (map quoted cols) @ '']''"

definition debe_tener :: "string \<Rightarrow> string list \<Rightarrow> string" where
  "debe_tener file req = file @ '' debe tener columnas '' @ repr_list (sort req)"

text \<open>\<open>drop_duplicates()\<close> keeps the first of equal rows.\<close>

definition drop_duplicates :: "'a list \<Rightarrow> 'a list" where
  "drop_duplicates xs = rev (remdups (rev xs))"

text \<open>
  \<^verbatim>\<open>
  topic_name_map = (
      topicos_canciones[["dominant_topic","nombre_topic"]]
      .dropna()
      .drop_duplicates()
      .set_index("dominant_topic")["nombre_topic"]
      .to_dict()
  )
  \<close>
  \<open>dropna()\<close> removes the rows without a name; \<open>to_dict()\<close> keeps, for an id that is left
  with several names, the name of the last of its rows.
\<close>

definition topic_name_map :: "assignment list \<Rightarrow> (int \<rightharpoonup> cell)" where
  "topic_name_map df =
     foldl (\<lambda>m (d, n). m(d \<mapsto> n)) Map.empty
       (drop_duplicates
          (map (\<lambda>r. (dominant_topic r, nombre_topic r))
             (filter (\<lambda>r. nombre_topic r \<noteq> Blank) df)))"

definition typed_topic_word :: "raw_topic_word \<Rightarrow> int \<Rightarrow> topic_word" where
  "typed_topic_word r t =
     \<lparr>topic = t, word = tw_word r, weight = to_numeric (tw_weight r),
      rank = to_numeric (tw_rank r)\<rparr>"

definition typed_assignment :: "ucd \<Rightarrow> raw_assignment \<Rightarrow> int option \<Rightarrow> int \<Rightarrow> assignment" where
  "typed_assignment U r y d =
     \<lparr>song = tc_song r, year = y, dominant_topic = d, nombre_topic = tc_nombre_topic r,
      dominant_prob = tc_dominant_prob r,
      Topic_1 = to_numeric (tc_Topic_1 r), Topic_2 = to_numeric (tc_Topic_2 r),
      Topic_3 = to_numeric (tc_Topic_3 r), Topic_4 = to_numeric (tc_Topic_4 r),
      Topic_5 = to_numeric (tc_Topic_5 r), song_norm = normalizar U (tc_song r)\<rparr>"

definition typed_lyric :: "ucd \<Rightarrow> raw_lyric \<Rightarrow> int option \<Rightarrow> lyric" where
  "typed_lyric U r y =
     \<lparr>l_song = xl_song r, l_year = y, lyrics = xl_lyrics r,
      l_song_norm = normalizar U (xl_song r)\<rparr>"

text \<open>
  \<open>load_data\<close>, statement by statement: the three reads, the three checks of the columns,
  the conversions in the order of the source (an exception of one ends the load), the
  normalised titles and the map of the topic names. \<open>xlsx\<close> is what
  \<open>pd.read_excel("shak.xlsx")\<close> gives.
\<close>

definition load_data ::
  "ucd \<Rightarrow> (encoding \<Rightarrow> raw_topic_word frame attempt) \<Rightarrow>
   (encoding \<Rightarrow> raw_assignment frame attempt) \<Rightarrow> error + raw_lyric frame \<Rightarrow>
   error + topic_word list \<times> assignment list \<times> lyric list \<times> (int \<rightharpoonup> cell)" where
  "load_data U csv_tw csv_tc xlsx =
    (case snd (leer_csv_seguro csv_tw) of Inl e \<Rightarrow> Inl e | Inr topic_words \<Rightarrow>
    (case snd (leer_csv_seguro csv_tc) of Inl e \<Rightarrow> Inl e | Inr topicos_canciones \<Rightarrow>
    (case xlsx of Inl e \<Rightarrow> Inl e | Inr canciones \<Rightarrow>
     if \<not> issubset req_tw (columns topic_words)
     then Inl (ValueError (debe_tener ''shakira_lda_topic_words.csv'' req_tw))
     else if \<not> issubset req_tc (columns topicos_canciones)
     then Inl (ValueError (debe_tener ''shak_topicos_canciones.csv'' req_tc))
     else if \<not> issubset req_shak (columns canciones)
     then Inl (ValueError (debe_tener ''shak.xlsx'' req_shak))
     else
    (case astype_int_read (map tw_topic (rows topic_words)) of Inl e \<Rightarrow> Inl e | Inr topics \<Rightarrow>
    (case astype_Int64 (map (\<lambda>r. to_numeric (tc_year r)) (rows topicos_canciones)) of
       Inl e \<Rightarrow> Inl e | Inr years \<Rightarrow>
    (case astype_int (map (\<lambda>r. to_numeric (tc_dominant_topic r)) (rows topicos_canciones)) of
       Inl e \<Rightarrow> Inl e | Inr dominant_topics \<Rightarrow>
    (case astype_Int64 (map (\<lambda>r. to_numeric (xl_year r)) (rows canciones)) of
       Inl e \<Rightarrow> Inl e | Inr xl_years \<Rightarrow>
     let tw = map (\<lambda>(r, t). typed_topic_word r t) (zip (rows topic_words) topics);
         tc = map (\<lambda>(r, y, d). typed_assignment U r y d)
                (zip (rows topicos_canciones) (zip years dominant_topics));
         ca = map (\<lambda>(r, y). typed_lyric U r y) (zip (rows canciones) xl_years)
     in Inr (tw, tc, ca, topic_name_map tc))))))))"

section \<open>Sorting, grouping and means of pandas\<close>

text \<open>
  \<open>sort_values\<close> with one column sorts with \<open>kind="quicksort"\<close> unless told otherwise, and
  neither call of the source tells it otherwise. numpy's quicksort is not part of the
  repository and promises no order among equal keys, so \<open>ndarray.argsort\<close> is a parameter
  \<open>argsort\<close>, and \<open>argsort_ok\<close> is what numpy promises of it: the indices of the array,
  each once, with the values in ascending order along them.
\<close>

definition argsort_ok :: "('k::linorder list \<Rightarrow> nat list) \<Rightarrow> bool" where
  "argsort_ok argsort \<longleftrightarrow>
     (\<forall>xs. mset (argsort xs) = mset [0..<length xs] \<and> sorted (map (\<lambda>i. xs ! i) (argsort xs)))"

text \<open>
  A sort that keeps the promise, with equal keys in the order of the array: on arrays
  without equal keys every sort that keeps the promise returns what this one returns.
\<close>

definition argsort_stable :: "'k::linorder list \<Rightarrow> nat list" where
  "argsort_stable xs = sort_key (\<lambda>i. xs ! i) [0..<length xs]"

text \<open>
  \<open>pandas.core.sorting.nargsort\<close>: the indices of the values that are not missing, sorted
  by \<open>argsort\<close> (for a descending sort the array is reversed before and the result after),
  then the indices of the missing values (\<open>na_position="last"\<close>).
\<close>

definition nargsort :: "('k list \<Rightarrow> nat list) \<Rightarrow> bool \<Rightarrow> 'k option list \<Rightarrow> nat list" where
  "nargsort argsort ascending items =
     (let idx = [0..<length items];
          non_nan_idx = filter (\<lambda>i. items ! i \<noteq> None) idx;
          nan_idx = filter (\<lambda>i. items ! i = None) idx;
          non_nans = map (\<lambda>i. the (items ! i)) non_nan_idx;
          non_nans = (if ascending then non_nans else rev non_nans);
          non_nan_idx = (if ascending then non_nan_idx else rev non_nan_idx);
          indexer = map (\<lambda>j. non_nan_idx ! j) (argsort non_nans);
          indexer = (if ascending then indexer else rev indexer)
      in indexer @ nan_idx)"

definition sort_values ::
  "('k list \<Rightarrow> nat list) \<Rightarrow> ('r \<Rightarrow> 'k option) \<Rightarrow> bool \<Rightarrow> 'r list \<Rightarrow> 'r list" where
  "sort_values argsort key ascending df =
     map (\<lambda>i. df ! i) (nargsort argsort ascending (map key df))"

text \<open>
  \<open>sort_values\<close> with a list of columns goes through \<open>lexsort_indexer\<close>: every column is
  coded by the rank of its value, a missing value after all others, the ranks of a
  descending column counted from the top, and the rows are sorted by the tuples of codes
  with a stable sort. The keys below order as those codes do.
\<close>

definition asc_key :: "int option \<Rightarrow> bool \<times> int" where
  "asc_key v = (case v of None \<Rightarrow> (True, 0) | Some y \<Rightarrow> (False, y))"

definition desc_key :: "pyfloat \<Rightarrow> bool \<times> rat" where
  "desc_key v = (case v of None \<Rightarrow> (True, 0) | Some p \<Rightarrow> (False, - p))"

text \<open>
  \<open>groupby("year", dropna=True)\<close>: one group for each year of the frame, the years in
  ascending order (\<open>sort=True\<close>), the rows without a year in no group.
\<close>

definition groupby_year :: "assignment list \<Rightarrow> (int \<times> assignment list) list" where
  "groupby_year df =
     map (\<lambda>y. (y, filter (\<lambda>r. year r = Some y) df)) (sort (remdups (List.map_filter year df)))"

text \<open>\<open>.mean()\<close> of a group: the mean of the values that are not NaN, NaN when there is none.\<close>

definition mean :: "pyfloat list \<Rightarrow> pyfloat" where
  "mean vs =
     (let xs = List.map_filter (\<lambda>v. v) vs
      in if xs = [] then None else Some (sum_list xs / of_nat (length xs)))"

section \<open>The queries of the display modes\<close>

text \<open>
  \<^verbatim>\<open>
  palabras = (topic_words[topic_words["topic"] == int(top_id)]
              .sort_values("weight", ascending=False)
              .head(n_pal))[["word","weight"]]
  \<close>
  \<open>n_pal\<close> is the slider's value, 5 to 30, or the constant 12 of the mode by song.
\<close>

definition topicKeywords ::
  "(rat list \<Rightarrow> nat list) \<Rightarrow> topic_word list \<Rightarrow> int \<Rightarrow> nat \<Rightarrow> (cell \<times> pyfloat) list" where
  "topicKeywords argsort topic_words top_id n_pal =
     map (\<lambda>r. (word r, weight r))
       (take n_pal (sort_values argsort weight False
          (filter (\<lambda>r. topic r = top_id) topic_words)))"

text \<open>The order of a descending float column: NaN last, else the greater value first.\<close>

definition ge_nan_last :: "pyfloat \<Rightarrow> pyfloat \<Rightarrow> bool" where
  "ge_nan_last a b =
     (case b of None \<Rightarrow> True | Some y \<Rightarrow> (case a of None \<Rightarrow> False | Some x \<Rightarrow> y \<le> x))"

text \<open>The comparison \<open>a >= b\<close> of two floats: false when one of them is NaN.\<close>

definition float_ge :: "pyfloat \<Rightarrow> pyfloat \<Rightarrow> bool" where
  "float_ge a b = (case (a, b) of (Some x, Some y) \<Rightarrow> y \<le> x | _ \<Rightarrow> False)"

text \<open>
  \<^verbatim>\<open>
  canciones_top = (topicos_canciones[topicos_canciones["dominant_topic"] == int(top_id)]
                   .sort_values(["year","dominant_prob"], ascending=[True, False])
                   [["song","year","dominant_prob"]])
  \<close>
\<close>

definition canciones_top_rows :: "assignment list \<Rightarrow> int \<Rightarrow> assignment list" where
  "canciones_top_rows topicos_canciones top_id =
     sort_key (\<lambda>r. (asc_key (year r), desc_key (dominant_prob r)))
       (filter (\<lambda>r. dominant_topic r = top_id) topicos_canciones)"

definition songsDominatedBy :: "assignment list \<Rightarrow> int \<Rightarrow> (cell \<times> int option \<times> pyfloat) list" where
  "songsDominatedBy topicos_canciones top_id =
     map (\<lambda>r. (song r, year r, dominant_prob r)) (canciones_top_rows topicos_canciones top_id)"

text \<open>\<open>str(n)\<close> of an integer, for \<open>col_topic = f"Topic_{int(top_id)}"\<close>.\<close>

definition digit :: "nat \<Rightarrow> char" where
  "digit d = ''0123456789'' ! d"

fun str_nat :: "nat \<Rightarrow> string" where
  "str_nat n = (if n < 10 then [digit n] else str_nat (n div 10) @ [digit (n mod 10)])"

declare str_nat.simps [simp del]

definition str_int :: "int \<Rightarrow> string" where
  "str_int i = (if i < 0 then CHR ''-'' # str_nat (nat (- i)) else str_nat (nat i))"

definition col_topic :: "int \<Rightarrow> string" where
  "col_topic top_id = ''Topic_'' @ str_int top_id"

text \<open>
  The column of the loaded assignments with a given name, among the names that
  \<open>col_topic\<close> can have: the frame of the schema has \<open>Topic_1\<close> to \<open>Topic_5\<close>. (A file with
  further columns of such names is outside the model.)
\<close>

definition topic_column :: "string \<Rightarrow> (assignment \<Rightarrow> pyfloat) option" where
  "topic_column name =
     map_of [(''Topic_1'', Topic_1), (''Topic_2'', Topic_2), (''Topic_3'', Topic_3),
             (''Topic_4'', Topic_4), (''Topic_5'', Topic_5)] name"

text \<open>
  \<^verbatim>\<open>
  col_topic = f"Topic_{int(top_id)}"
  df_topic_year = (topicos_canciones.groupby("year", dropna=True)[col_topic]
                   .mean()
                   .reset_index()
                   .sort_values("year"))
  \<close>
  Selecting a column that the frame does not have raises \<open>KeyError\<close>.
\<close>

definition yearlyMeanForTopic ::
  "(int list \<Rightarrow> nat list) \<Rightarrow> assignment list \<Rightarrow> int \<Rightarrow> error + (int \<times> pyfloat) list" where
  "yearlyMeanForTopic argsort topicos_canciones top_id =
     (case topic_column (col_topic top_id) of
        None \<Rightarrow> Inl (KeyError (''Column not found: '' @ col_topic top_id))
      | Some col \<Rightarrow>
          Inr (sort_values argsort (\<lambda>(y, m). Some y) True
                 (map (\<lambda>(y, grp). (y, mean (map col grp))) (groupby_year topicos_canciones))))"

text \<open>
  \<^verbatim>\<open>
  df_all = (topicos_canciones
            .groupby("year", dropna=True)[[f"Topic_{i}" for i in range(1,6)]]
            .mean()
            .reset_index()
            .sort_values("year"))
  \<close>
  and the trace of topic \<open>i\<close>, \<open>x=df_all["year"], y=df_all[f"Topic_{i}"]\<close>, for \<open>i\<close> from 1
  to 5.
\<close>

definition yearlyMeanAllTopics ::
  "(int list \<Rightarrow> nat list) \<Rightarrow> assignment list \<Rightarrow> (int \<times> pyfloat list) list" where
  "yearlyMeanAllTopics argsort topicos_canciones =
     sort_values argsort (\<lambda>(y, ms). Some y) True
       (map (\<lambda>(y, grp). (y, map (\<lambda>col. mean (map col grp))
                               [Topic_1, Topic_2, Topic_3, Topic_4, Topic_5]))
          (groupby_year topicos_canciones))"

definition trace_of :: "nat \<Rightarrow> (int \<times> pyfloat list) list \<Rightarrow> (int \<times> pyfloat) list" where
  "trace_of i df_all = map (\<lambda>(y, ms). (y, ms ! (i - 1))) df_all"

section \<open>The specification's view of the data, and sample data\<close>

text \<open>
  The topic distribution of a song, an ordered sequence of five floats: index \<open>i\<close> is the
  probability of topic \<open>i + 1\<close>, the column \<open>Topic_{i+1}\<close>.
\<close>

definition topic_probs :: "assignment \<Rightarrow> pyfloat list" where
  "topic_probs r = [Topic_1 r, Topic_2 r, Topic_3 r, Topic_4 r, Topic_5 r]"

text \<open>The order of an ascending nullable column: a missing value last.\<close>

definition le_na_last :: "int option \<Rightarrow> int option \<Rightarrow> bool" where
  "le_na_last a b =
     (case b of None \<Rightarrow> True | Some y \<Rightarrow> (case a of None \<Rightarrow> False | Some x \<Rightarrow> x \<le> y))"

text \<open>
  Five rows of topic words, two of them of equal weight and one without a weight; four
  rows of topic words of different weights, one without a weight; six assignments, one without a year, one without a dominant probability, some without the
  probability of a topic; and an assignment whose \<open>dominant_topic\<close> cell is empty.
\<close>

definition tw_sample :: "topic_word list" where
  "tw_sample =
     [\<lparr>topic = 1, word = Txt [97], weight = Some (1/2), rank = Some 2\<rparr>,
      \<lparr>topic = 2, word = Txt [99], weight = Some 1, rank = Some 1\<rparr>,
      \<lparr>topic = 1, word = Txt [100], weight = None, rank = Some 4\<rparr>,
      \<lparr>topic = 1, word = Txt [98], weight = Some (1/2), rank = Some 3\<rparr>,
      \<lparr>topic = 1, word = Txt [101], weight = Some (3/4), rank = Some 1\<rparr>]"


definition tc_row :: "nat \<Rightarrow> int option \<Rightarrow> int \<Rightarrow> pyfloat \<Rightarrow> pyfloat list \<Rightarrow> assignment" where
  "tc_row s y d p ts =
     \<lparr>song = Txt [s], year = y, dominant_topic = d, nombre_topic = Txt [s],
      dominant_prob = p, Topic_1 = ts ! 0, Topic_2 = ts ! 1, Topic_3 = ts ! 2,
      Topic_4 = ts ! 3, Topic_5 = ts ! 4, song_norm = Txt [s]\<rparr>"

definition tc_sample :: "assignment list" where
  "tc_sample =
     [tc_row 65 None 1 (Some (9/10)) [Some (9/10), None, Some 0, Some 0, Some 0],
      tc_row 66 (Some 2005) 1 None [None, Some (1/2), Some 0, Some 0, Some 0],
      tc_row 67 (Some 2001) 1 (Some (3/5)) [Some (3/5), Some (1/5), Some 0, Some 0, None],
      tc_row 68 (Some 2005) 2 (Some (7/10)) [Some (1/10), Some (7/10), Some 0, Some 0, None],
      tc_row 69 (Some 2005) 1 (Some (1/2)) [Some (1/2), Some (1/4), Some 0, Some 0, Some 1],
      tc_row 70 (Some 2005) 1 (Some (4/5)) [Some (4/5), Some (1/5), Some 0, Some 0, Some 0]]"

definition blank_assignment :: raw_assignment where
  "blank_assignment =
     \<lparr>tc_song = Txt [65], tc_year = Num 2005, tc_dominant_topic = Blank,
      tc_nombre_topic = Txt [66], tc_dominant_prob = Some (1/2),
      tc_Topic_1 = Num (1/2), tc_Topic_2 = Num (1/8), tc_Topic_3 = Num (1/8),
      tc_Topic_4 = Num (1/8), tc_Topic_5 = Num (1/8)\<rparr>"

section \<open>Properties of \<open>normalizar\<close>\<close>

lemma filter_put_mark:
  "filter (\<lambda>c. combining_of U c = 0) (put_mark U c ds) =
   filter (\<lambda>c. combining_of U c = 0) (c # ds)"
  by (induction ds) auto

lemma filter_foldl_put_mark:
  "filter (\<lambda>c. combining_of U c = 0) (rev (foldl (\<lambda>acc c. put_mark U c acc) acc s)) =
   filter (\<lambda>c. combining_of U c = 0) (rev acc @ s)"
proof (induction s arbitrary: acc)
  case Nil
  then show ?case by simp
next
  case (Cons c s)
  have "filter (\<lambda>c. combining_of U c = 0) (rev (put_mark U c acc)) =
        filter (\<lambda>c. combining_of U c = 0) (rev (c # acc))"
    using filter_put_mark [of U c acc] by (metis rev_filter)
  with Cons show ?case by simp
qed

lemma filter_canonical_order:
  "filter (\<lambda>c. combining_of U c = 0) (canonical_order U s) =
   filter (\<lambda>c. combining_of U c = 0) s"
  using filter_foldl_put_mark [of U "[]" s] by (simp add: canonical_order_def)

lemma normalizar_Txt:
  "normalizar U (Txt s) =
   Txt (filter (\<lambda>c. combining_of U c = 0) (concat (map (decomp_of U) (lower U (strip s)))))"
  by (simp add: NFKD_def filter_canonical_order)

lemma strip_stripped:
  assumes "stripped s"
  shows "strip s = s"
proof (cases "s = []")
  case True
  then show ?thesis by (simp add: strip_def)
next
  case False
  with assms have h: "\<not> isspace (hd s)" and l: "\<not> isspace (last s)"
    by (auto simp: stripped_def)
  from False h have "dropWhile isspace s = s" by (cases s) auto
  moreover from False l have "dropWhile isspace (rev s) = rev s"
    by (cases "rev s") (auto simp: last_rev hd_rev)
  ultimately show ?thesis by (simp add: strip_def)
qed

lemma lower_from_settled:
  "list_all (settled U) r \<Longrightarrow> lower_from U before r = r"
  by (induction r arbitrary: before) (simp_all add: settled_def)

lemma decomp_settled:
  "list_all (settled U) r \<Longrightarrow> concat (map (decomp_of U) r) = r"
  by (induction r) (simp_all add: settled_def)

lemma key_is_fixed:
  assumes s: "list_all (settled U) r" and w: "stripped r"
    and m: "list_all (\<lambda>c. combining_of U c = 0) r"
  shows "normalizar U (Txt r) = Txt r"
proof -
  have "lower U (strip r) = r"
    by (simp add: strip_stripped [OF w] lower_def lower_from_settled [OF s])
  moreover have "filter (\<lambda>c. combining_of U c = 0) r = r"
    using m by (simp add: list_all_iff)
  ultimately show ?thesis
    by (simp add: normalizar_Txt decomp_settled [OF s] del: normalizar.simps(1))
qed

text \<open>
  Claim C8, as amended. \<open>normalizar\<close> has no failure path: a string gives a string, and a
  value that is no string (a number, NaN) is returned unchanged. Normalising twice gives
  what normalising once gives whenever the key, the result of normalising once, has no
  white space around it and consists of code points that \<open>str.lower\<close> and the
  decomposition leave as they are.
\<close>

theorem normalizar_total_idempotent_on_settled_keys:
  "(\<exists>r. normalizar U (Txt s) = Txt r \<and>
        (list_all (settled U) r \<and> stripped r \<longrightarrow>
           normalizar U (normalizar U (Txt s)) = normalizar U (Txt s))) \<and>
   normalizar U (Num x) = Num x \<and> normalizar U Blank = Blank"
proof -
  let ?r = "filter (\<lambda>c. combining_of U c = 0) (NFKD U (lower U (strip s)))"
  have r: "normalizar U (Txt s) = Txt ?r" by simp
  have m: "list_all (\<lambda>c. combining_of U c = 0) ?r" by (simp add: list_all_iff)
  have "normalizar U (normalizar U (Txt s)) = normalizar U (Txt s)"
    if "list_all (settled U) ?r" and "stripped ?r"
    using key_is_fixed [OF that m] by (simp only: r)
  with r show ?thesis by auto
qed

lemma key_sample:
  "normalizar ucd_excerpt (Txt [32, 32, 68, 105, 769, 97, 931, 32]) = Txt [100, 105, 97, 962]"
  by (simp add: normalizar_Txt strip_def lower_def final_sigma_def ucd_excerpt_def
      decomp_table_def isspace_def del: normalizar.simps(1))

lemma key_sample_ok:
  "list_all (settled ucd_excerpt) [100, 105, 97, 962] \<and> stripped [100, 105, 97, 962]"
  by (simp add: settled_def stripped_def ucd_excerpt_def decomp_table_def isspace_def)

text \<open>
  The title \<open>Dia\<close> with a combining acute accent (U+0301) after the \<open>i\<close> and a capital
  sigma at its end, two spaces before it and one after it: its key is \<open>dia\<close> followed by
  the final sigma.
\<close>

theorem normalizar_total_idempotent_on_settled_keys_witness:
  "normalizar ucd_excerpt (Txt [32, 32, 68, 105, 769, 97, 931, 32]) = Txt [100, 105, 97, 962] \<and>
   list_all (settled ucd_excerpt) [100, 105, 97, 962] \<and> stripped [100, 105, 97, 962] \<and>
   normalizar ucd_excerpt (normalizar ucd_excerpt (Txt [32, 32, 68, 105, 769, 97, 931, 32])) =
     normalizar ucd_excerpt (Txt [32, 32, 68, 105, 769, 97, 931, 32])"
  using normalizar_total_idempotent_on_settled_keys
      [of ucd_excerpt "[32, 32, 68, 105, 769, 97, 931, 32]"] key_sample key_sample_ok
  by (simp del: normalizar.simps(1))

lemma key_trade_mark:
  "normalizar ucd_excerpt (Txt [8482]) = Txt [84, 77]"
  "normalizar ucd_excerpt (Txt [84, 77]) = Txt [116, 109]"
  by (simp_all add: normalizar_Txt strip_def lower_def final_sigma_def ucd_excerpt_def
      decomp_table_def isspace_def del: normalizar.simps(1))

lemma key_acute:
  "normalizar ucd_excerpt (Txt [180]) = Txt [32]"
  "normalizar ucd_excerpt (Txt [32]) = Txt []"
  by (simp_all add: normalizar_Txt strip_def lower_def final_sigma_def ucd_excerpt_def
      decomp_table_def isspace_def del: normalizar.simps(1))

text \<open>
  Claim C8 as the specification states it, idempotence on every string, fails in two
  ways, because the decomposition runs after \<open>strip\<close> and \<open>lower\<close>. The key of the trade
  mark sign U+2122 is \<open>TM\<close>, which \<open>lower\<close> changes: the key of \<open>TM\<close> is \<open>tm\<close>. The key of
  the acute accent U+00B4 is a space (its decomposition is a space and the combining
  acute accent), which \<open>strip\<close> removes: the key of a space is the empty string.
\<close>

theorem normalizar_not_idempotent:
  "normalizar ucd_excerpt (Txt [8482]) = Txt [84, 77] \<and>
   normalizar ucd_excerpt (normalizar ucd_excerpt (Txt [8482])) = Txt [116, 109] \<and>
   normalizar ucd_excerpt (normalizar ucd_excerpt (Txt [8482])) \<noteq>
     normalizar ucd_excerpt (Txt [8482]) \<and>
   normalizar ucd_excerpt (Txt [180]) = Txt [32] \<and>
   normalizar ucd_excerpt (normalizar ucd_excerpt (Txt [180])) = Txt [] \<and>
   normalizar ucd_excerpt (normalizar ucd_excerpt (Txt [180])) \<noteq>
     normalizar ucd_excerpt (Txt [180])"
  by (simp add: key_trade_mark key_acute del: normalizar.simps(1))

section \<open>\<open>leer_csv_seguro\<close> and \<open>load_data\<close>\<close>

text \<open>
  Claim C3 says that the three encodings are tried in the order UTF-8, Latin-1, cp1252 and
  that an error is raised only when all three reads fail. The source never makes more
  than two reads. When the UTF-8 read raises \<open>UnicodeDecodeError\<close> and the Latin-1 read
  raises, that exception leaves the function and cp1252 is not tried, here although it
  would parse. When the UTF-8 read raises anything else, Latin-1 is passed over, here
  although it would parse, and the exception of the cp1252 read leaves the function.
\<close>

theorem leer_csv_seguro_stops_after_two_reads:
  "leer_csv_seguro (\<lambda>enc. case enc of Utf8 \<Rightarrow> UnicodeDecodeError
       | Latin1 \<Rightarrow> Failed ''ParserError'' | Cp1252 \<Rightarrow> Parsed df) =
     ([Utf8, Latin1], Inl (ReadError ''ParserError'')) \<and>
   leer_csv_seguro (\<lambda>enc. case enc of Utf8 \<Rightarrow> Failed ''OSError''
       | Latin1 \<Rightarrow> Parsed df | Cp1252 \<Rightarrow> Failed ''OSError'') =
     ([Utf8, Cp1252], Inl (ReadError ''OSError''))"
  by (simp add: leer_csv_seguro_def)

text \<open>
  Claim C4 says that a cell which is no number becomes a missing value and the load goes
  on. For \<open>year\<close> and \<open>Topic_1\<close> to \<open>Topic_5\<close> the source does that; for \<open>dominant_topic\<close>
  it converts with \<open>errors="coerce"\<close> and then casts with \<open>.astype(int)\<close>, which has no
  missing value: one assignment with an empty \<open>dominant_topic\<close> in otherwise complete
  data aborts the whole load.
\<close>

theorem load_data_dominant_topic_aborts:
  "load_data U
     (\<lambda>enc. Parsed \<lparr>columns = req_tw, rows = []\<rparr>)
     (\<lambda>enc. Parsed \<lparr>columns = req_tc, rows = [blank_assignment]\<rparr>)
     (Inr \<lparr>columns = req_shak, rows = []\<rparr>) =
   Inl (ValueError ''Cannot convert non-finite values (NA or inf) to integer'')"
  by (simp add: load_data_def leer_csv_seguro_def issubset_def req_tw_def req_tc_def
      req_shak_def astype_int_read_def astype_Int64_def astype_int_def blank_assignment_def
      int64_of_float_def trunc_def)

lemma sublist_joined:
  "c \<in> set cols \<Longrightarrow> sublist c (joined cols)"
proof (induction cols rule: joined.induct)
  case 1
  then show ?case by simp
next
  case (2 d)
  then show ?case by simp
next
  case (3 d e cs)
  show ?case
  proof (cases "c = d")
    case True
    then show ?thesis by simp
  next
    case False
    with 3 have "sublist c (joined (e # cs))" by simp
    then obtain ps ss where "joined (e # cs) = ps @ c @ ss" by (auto simp: sublist_def)
    then have "joined (d # e # cs) = (d @ '', '' @ ps) @ c @ ss" by simp
    then show ?thesis unfolding sublist_def by blast
  qed
qed

lemma debe_tener_names:
  assumes "c \<in> set req"
  shows "sublist (quoted c) (debe_tener file req)"
proof -
  from assms have "quoted c \<in> set (map quoted (sort req))" by simp
  then have "sublist (quoted c) (joined (map quoted (sort req)))" by (rule sublist_joined)
  then obtain ps ss where "joined (map quoted (sort req)) = ps @ quoted c @ ss"
    by (auto simp: sublist_def)
  then have "debe_tener file req =
      (file @ '' debe tener columnas '' @ ''['' @ ps) @ quoted c @ (ss @ '']'')"
    by (simp add: debe_tener_def repr_list_def)
  then show ?thesis unfolding sublist_def by blast
qed

lemma sort_req_tw: "sort req_tw = [''rank'', ''topic'', ''weight'', ''word'']"
  unfolding req_tw_def by code_simp

lemma sort_req_shak: "sort req_shak = [''lyrics'', ''song'', ''year'']"
  unfolding req_shak_def by code_simp

lemma sort_req_tc: "sort req_tc = [''Topic_1'', ''Topic_2'', ''Topic_3'', ''Topic_4'', ''Topic_5'',
   ''dominant_prob'', ''dominant_topic'', ''nombre_topic'', ''song'', ''year'']"
  unfolding req_tc_def by code_simp

text \<open>
  Claim C6. The three loaders of the specification are the three checks of \<open>load_data\<close>,
  made in the order topic words, assignments, lyrics, after the reads and before any
  conversion. When a data set lacks required columns and the data sets checked before it
  are complete, the load fails with the \<open>ValueError\<close> of that data set, whatever the cells
  hold, and the message, which lists the required columns, contains the quoted name of
  every column that is missing.
\<close>

theorem load_data_missing_columns:
  assumes "snd (leer_csv_seguro csv_tw) = Inr topic_words"
    and "snd (leer_csv_seguro csv_tc) = Inr topicos_canciones"
    and "xlsx = Inr canciones"
  shows "(\<not> issubset req_tw (columns topic_words) \<longrightarrow>
            (\<exists>m. load_data U csv_tw csv_tc xlsx = Inl (ValueError m) \<and>
                 (\<forall>c \<in> set req_tw. c \<notin> set (columns topic_words) \<longrightarrow> sublist (quoted c) m))) \<and>
         (issubset req_tw (columns topic_words) \<and>
          \<not> issubset req_tc (columns topicos_canciones) \<longrightarrow>
            (\<exists>m. load_data U csv_tw csv_tc xlsx = Inl (ValueError m) \<and>
                 (\<forall>c \<in> set req_tc. c \<notin> set (columns topicos_canciones) \<longrightarrow>
                    sublist (quoted c) m))) \<and>
         (issubset req_tw (columns topic_words) \<and>
          issubset req_tc (columns topicos_canciones) \<and>
          \<not> issubset req_shak (columns canciones) \<longrightarrow>
            (\<exists>m. load_data U csv_tw csv_tc xlsx = Inl (ValueError m) \<and>
                 (\<forall>c \<in> set req_shak. c \<notin> set (columns canciones) \<longrightarrow> sublist (quoted c) m)))"
  using assms by (simp add: load_data_def debe_tener_names)

text \<open>
  Topic words without the column \<open>rank\<close>: the message of the \<open>ValueError\<close> names \<open>rank\<close>.
\<close>

theorem load_data_missing_columns_witness:
  "\<not> issubset req_tw [''topic'', ''word'', ''weight''] \<and>
   load_data ucd_excerpt (\<lambda>enc. Parsed \<lparr>columns = [''topic'', ''word'', ''weight''], rows = []\<rparr>)
     (\<lambda>enc. Parsed \<lparr>columns = req_tc, rows = []\<rparr>) (Inr \<lparr>columns = req_shak, rows = []\<rparr>) =
   Inl (ValueError
     (''shakira_lda_topic_words.csv debe tener columnas ''
        @ ''['' @ quoted ''rank'' @ '', '' @ quoted ''topic'' @ '', '' @ quoted ''weight''
        @ '', '' @ quoted ''word'' @ '']'')) \<and>
   (\<exists>m. load_data ucd_excerpt (\<lambda>enc. Parsed \<lparr>columns = [''topic'', ''word'', ''weight''], rows = []\<rparr>)
     (\<lambda>enc. Parsed \<lparr>columns = req_tc, rows = []\<rparr>) (Inr \<lparr>columns = req_shak, rows = []\<rparr>) =
       Inl (ValueError m) \<and> sublist (quoted ''rank'') m)"
proof -
  let ?tw = "\<lparr>columns = [''topic'', ''word'', ''weight''], rows = ([] :: raw_topic_word list)\<rparr>"
  let ?tc = "\<lparr>columns = req_tc, rows = ([] :: raw_assignment list)\<rparr>"
  let ?ca = "\<lparr>columns = req_shak, rows = ([] :: raw_lyric list)\<rparr>"
  have r1: "snd (leer_csv_seguro (\<lambda>enc. Parsed ?tw)) = Inr ?tw"
    by (simp add: leer_csv_seguro_def)
  have r2: "snd (leer_csv_seguro (\<lambda>enc. Parsed ?tc)) = Inr ?tc"
    by (simp add: leer_csv_seguro_def)
  have miss: "\<not> issubset req_tw (columns ?tw)"
    by (simp add: issubset_def req_tw_def)
  have rank: "''rank'' \<in> set req_tw" "''rank'' \<notin> set (columns ?tw)"
    by (simp_all add: req_tw_def)
  have val: "load_data ucd_excerpt (\<lambda>enc. Parsed ?tw) (\<lambda>enc. Parsed ?tc) (Inr ?ca) =
     Inl (ValueError (''shakira_lda_topic_words.csv debe tener columnas ''
        @ ''['' @ quoted ''rank'' @ '', '' @ quoted ''topic'' @ '', '' @ quoted ''weight''
        @ '', '' @ quoted ''word'' @ '']''))"
    using miss by (simp add: load_data_def leer_csv_seguro_def debe_tener_def repr_list_def sort_req_tw)
  from load_data_missing_columns [OF r1 r2 refl, of ucd_excerpt] miss rank
  have "\<exists>m. load_data ucd_excerpt (\<lambda>enc. Parsed ?tw) (\<lambda>enc. Parsed ?tc) (Inr ?ca) = Inl (ValueError m)
           \<and> sublist (quoted ''rank'') m"
    by blast
  with miss val show ?thesis by simp
qed

section \<open>What the sorts return\<close>

lemma argsort_ok_mset: "argsort_ok a \<Longrightarrow> mset (a xs) = mset [0..<length xs]"
  by (simp add: argsort_ok_def)

lemma argsort_ok_sorted: "argsort_ok a \<Longrightarrow> sorted (map (\<lambda>i. xs ! i) (a xs))"
  by (simp add: argsort_ok_def)

lemma argsort_ok_set: "argsort_ok a \<Longrightarrow> set (a xs) = {0..<length xs}"
  using argsort_ok_mset [of a xs] by (metis set_mset_mset set_upt)

lemma argsort_ok_permutes:
  assumes "argsort_ok a" and "length ys = length xs"
  shows "mset (map (\<lambda>j. ys ! j) (a xs)) = mset ys"
proof -
  have "mset (map (\<lambda>j. ys ! j) (a xs)) = image_mset (\<lambda>j. ys ! j) (mset (a xs))" by simp
  also have "\<dots> = image_mset (\<lambda>j. ys ! j) (mset [0..<length ys])"
    using assms by (simp add: argsort_ok_mset)
  also have "\<dots> = mset (map (\<lambda>j. ys ! j) [0..<length ys])" by simp
  also have "\<dots> = mset ys" by (simp add: map_nth)
  finally show ?thesis .
qed

lemma argsort_ok_values:
  assumes ok: "argsort_ok a" and len: "length nn = length xs"
    and val: "\<And>j. j < length nn \<Longrightarrow> items ! (nn ! j) = Some (xs ! j)"
  shows "map (\<lambda>i. items ! i) (map (\<lambda>j. nn ! j) (a xs)) = map Some (map (\<lambda>j. xs ! j) (a xs))"
proof -
  have "\<And>j. j \<in> set (a xs) \<Longrightarrow> items ! (nn ! j) = Some (xs ! j)"
    using argsort_ok_set [OF ok, of xs] val len by simp
  then show ?thesis by simp
qed

lemma mset_filter_split:
  "mset (filter P xs) + mset (filter (\<lambda>x. \<not> P x) xs) = mset xs"
  by (induction xs) auto

lemma nargsort_mset:
  assumes ok: "argsort_ok a"
  shows "mset (nargsort a asc items) = mset [0..<length items]"
proof -
  let ?idx = "[0..<length items]"
  let ?nn = "filter (\<lambda>i. items ! i \<noteq> None) ?idx"
  let ?na = "filter (\<lambda>i. items ! i = None) ?idx"
  let ?xs = "map (\<lambda>i. the (items ! i)) ?nn"
  have part: "mset ?nn + mset ?na = mset ?idx"
    using mset_filter_split [of "\<lambda>i. items ! i \<noteq> None" ?idx] by (simp only: not_not)
  show ?thesis
  proof (cases asc)
    case True
    have "mset (map (\<lambda>j. ?nn ! j) (a ?xs)) = mset ?nn"
      by (rule argsort_ok_permutes [OF ok]) simp
    with part True show ?thesis by (simp add: nargsort_def Let_def)
  next
    case False
    have "mset (map (\<lambda>j. rev ?nn ! j) (a (rev ?xs))) = mset (rev ?nn)"
      by (rule argsort_ok_permutes [OF ok]) simp
    with part False show ?thesis by (simp add: nargsort_def Let_def)
  qed
qed

lemma nargsort_set: "argsort_ok a \<Longrightarrow> set (nargsort a asc items) = {0..<length items}"
  using nargsort_mset [of a asc items] by (metis set_mset_mset set_upt)

lemma nargsort_values:
  assumes ok: "argsort_ok a"
  shows "\<exists>vs k. map (\<lambda>i. items ! i) (nargsort a asc items) = map Some vs @ replicate k None \<and>
           (if asc then sorted vs else sorted (rev vs))"
proof -
  let ?idx = "[0..<length items]"
  let ?nn = "filter (\<lambda>i. items ! i \<noteq> None) ?idx"
  let ?na = "filter (\<lambda>i. items ! i = None) ?idx"
  let ?xs = "map (\<lambda>i. the (items ! i)) ?nn"
  have na: "map (\<lambda>i. items ! i) ?na = replicate (length ?na) None"
    by (rule map_replicate_const [THEN subst [where P = "\<lambda>x. _ = x"]])
       (rule map_cong [OF refl], simp)
  have nn: "\<And>j. j < length ?nn \<Longrightarrow> items ! (?nn ! j) = Some (?xs ! j)"
  proof -
    fix j assume j: "j < length ?nn"
    then have "?nn ! j \<in> set ?nn" by (rule nth_mem)
    then have "items ! (?nn ! j) \<noteq> None" by simp
    with j show "items ! (?nn ! j) = Some (?xs ! j)" by simp
  qed
  show ?thesis
  proof (cases asc)
    case True
    have "map (\<lambda>i. items ! i) (map (\<lambda>j. ?nn ! j) (a ?xs)) = map Some (map (\<lambda>j. ?xs ! j) (a ?xs))"
      by (rule argsort_ok_values [OF ok _ nn]) simp_all
    with na True have "map (\<lambda>i. items ! i) (nargsort a asc items) =
        map Some (map (\<lambda>j. ?xs ! j) (a ?xs)) @ replicate (length ?na) None"
      by (simp add: nargsort_def Let_def)
    moreover have "sorted (map (\<lambda>j. ?xs ! j) (a ?xs))" by (rule argsort_ok_sorted [OF ok])
    ultimately show ?thesis using True by (intro exI conjI) auto
  next
    case False
    have rn: "\<And>j. j < length (rev ?nn) \<Longrightarrow> items ! (rev ?nn ! j) = Some (rev ?xs ! j)"
    proof -
      fix j assume j: "j < length (rev ?nn)"
      then have "rev ?nn ! j = ?nn ! (length ?nn - Suc j)" by (simp add: rev_nth)
      moreover from j have "rev ?xs ! j = ?xs ! (length ?nn - Suc j)" by (simp add: rev_nth)
      moreover from j have "length ?nn - Suc j < length ?nn" by simp
      ultimately show "items ! (rev ?nn ! j) = Some (rev ?xs ! j)" using nn by simp
    qed
    have "map (\<lambda>i. items ! i) (map (\<lambda>j. rev ?nn ! j) (a (rev ?xs))) =
        map Some (map (\<lambda>j. rev ?xs ! j) (a (rev ?xs)))"
      by (rule argsort_ok_values [OF ok _ rn]) simp_all
    with na False have "map (\<lambda>i. items ! i) (nargsort a asc items) =
        map Some (rev (map (\<lambda>j. rev ?xs ! j) (a (rev ?xs)))) @ replicate (length ?na) None"
      by (simp add: nargsort_def Let_def rev_map)
    moreover have "sorted (rev (rev (map (\<lambda>j. rev ?xs ! j) (a (rev ?xs)))))"
      using argsort_ok_sorted [OF ok, of "rev ?xs"] by simp
    ultimately show ?thesis using False by (intro exI conjI) auto
  qed
qed

lemma sort_values_mset:
  assumes ok: "argsort_ok a"
  shows "mset (sort_values a key asc df) = mset df"
proof -
  have "mset (sort_values a key asc df) =
        image_mset (\<lambda>i. df ! i) (mset (nargsort a asc (map key df)))"
    by (simp add: sort_values_def)
  also have "\<dots> = image_mset (\<lambda>i. df ! i) (mset [0..<length df])"
    by (simp add: nargsort_mset [OF ok])
  also have "\<dots> = mset (map (\<lambda>i. df ! i) [0..<length df])" by simp
  also have "\<dots> = mset df" by (simp add: map_nth)
  finally show ?thesis .
qed

lemma sort_values_keys:
  assumes ok: "argsort_ok a"
  shows "\<exists>vs k. map key (sort_values a key asc df) = map Some vs @ replicate k None \<and>
           (if asc then sorted vs else sorted (rev vs))"
proof -
  have "\<And>i. i \<in> set (nargsort a asc (map key df)) \<Longrightarrow> key (df ! i) = map key df ! i"
    using nargsort_set [OF ok, of asc "map key df"] by simp
  then have "map key (sort_values a key asc df) =
      map (\<lambda>i. map key df ! i) (nargsort a asc (map key df))"
    by (simp add: sort_values_def)
  with nargsort_values [OF ok, of "map key df" asc] show ?thesis by simp
qed

lemma argsort_stable_ok: "argsort_ok argsort_stable"
  by (simp add: argsort_ok_def argsort_stable_def)







section \<open>Songs of a topic\<close>

lemma canciones_top_rows_sorted:
  "sorted (map (\<lambda>r. (asc_key (year r), desc_key (dominant_prob r)))
     (canciones_top_rows df t))"
  by (simp add: canciones_top_rows_def)

lemma canciones_top_rows_set:
  "set (canciones_top_rows df t) = {r \<in> set df. dominant_topic r = t}"
  by (auto simp: canciones_top_rows_def)

lemma canciones_top_rows_mono:
  assumes "i \<le> j" and "j < length (canciones_top_rows df t)"
  shows "(asc_key (year (canciones_top_rows df t ! i)),
          desc_key (dominant_prob (canciones_top_rows df t ! i))) \<le>
         (asc_key (year (canciones_top_rows df t ! j)),
          desc_key (dominant_prob (canciones_top_rows df t ! j)))"
  using sorted_nth_mono [OF canciones_top_rows_sorted [of df t], of i j] assms by simp

lemma pair_le_fst: "(a :: 'a :: order, b :: 'b :: order) \<le> (c, d) \<Longrightarrow> a \<le> c"
  by (auto simp: less_eq_prod_def)

lemma pair_le_snd: "(a :: 'a :: order, b :: 'b :: order) \<le> (c, d) \<Longrightarrow> a = c \<Longrightarrow> b \<le> d"
  by (auto simp: less_eq_prod_def)

lemma asc_key_le: "asc_key a \<le> asc_key b \<longleftrightarrow> le_na_last a b"
  by (auto simp: asc_key_def le_na_last_def less_eq_prod_def split: option.splits)

lemma desc_key_le: "desc_key a \<le> desc_key b \<longleftrightarrow> ge_nan_last a b"
  by (auto simp: desc_key_def ge_nan_last_def less_eq_prod_def split: option.splits)

lemma songs_nth:
  "i < length (canciones_top_rows df t) \<Longrightarrow>
   songsDominatedBy df t ! i =
     (song (canciones_top_rows df t ! i), year (canciones_top_rows df t ! i),
      dominant_prob (canciones_top_rows df t ! i))"
  by (simp add: songsDominatedBy_def)

lemma songs_length: "length (songsDominatedBy df t) = length (canciones_top_rows df t)"
  by (simp add: songsDominatedBy_def)

text \<open>
  Claim C7, as amended. \<open>songsDominatedBy\<close> returns the song, year and dominant
  probability of exactly the rows whose dominant topic is the given one. Of two entries
  that follow each other the first has the earlier or the same year, a missing year
  counting as the latest; and when their years are equal, the second has no dominant
  probability (NaN), or the first has one that is greater or equal.
\<close>

theorem songsDominatedBy_sorted:
  "songsDominatedBy df t = map (\<lambda>r. (song r, year r, dominant_prob r)) (canciones_top_rows df t) \<and>
   mset (canciones_top_rows df t) = mset (filter (\<lambda>r. dominant_topic r = t) df) \<and>
   (\<forall>r \<in> set (canciones_top_rows df t). r \<in> set df \<and> dominant_topic r = t) \<and>
   (\<forall>i. Suc i < length (songsDominatedBy df t) \<longrightarrow>
      le_na_last (fst (snd (songsDominatedBy df t ! i)))
                 (fst (snd (songsDominatedBy df t ! Suc i))) \<and>
      (fst (snd (songsDominatedBy df t ! i)) = fst (snd (songsDominatedBy df t ! Suc i)) \<longrightarrow>
         ge_nan_last (snd (snd (songsDominatedBy df t ! i)))
                     (snd (snd (songsDominatedBy df t ! Suc i)))))"
proof (intro conjI allI impI ballI)
  show "songsDominatedBy df t =
      map (\<lambda>r. (song r, year r, dominant_prob r)) (canciones_top_rows df t)"
    by (simp add: songsDominatedBy_def)
  show "mset (canciones_top_rows df t) = mset (filter (\<lambda>r. dominant_topic r = t) df)"
    by (simp add: canciones_top_rows_def)
next
  fix r assume "r \<in> set (canciones_top_rows df t)"
  then show "r \<in> set df" "dominant_topic r = t" by (simp_all add: canciones_top_rows_set)
next
  fix i assume i: "Suc i < length (songsDominatedBy df t)"
  then have l: "Suc i < length (canciones_top_rows df t)" by (simp add: songs_length)
  from canciones_top_rows_mono [of i "Suc i" df t] l
  have k: "(asc_key (year (canciones_top_rows df t ! i)),
            desc_key (dominant_prob (canciones_top_rows df t ! i))) \<le>
           (asc_key (year (canciones_top_rows df t ! Suc i)),
            desc_key (dominant_prob (canciones_top_rows df t ! Suc i)))" by simp
  from l have n: "songsDominatedBy df t ! i =
     (song (canciones_top_rows df t ! i), year (canciones_top_rows df t ! i),
      dominant_prob (canciones_top_rows df t ! i))"
    "songsDominatedBy df t ! Suc i =
     (song (canciones_top_rows df t ! Suc i), year (canciones_top_rows df t ! Suc i),
      dominant_prob (canciones_top_rows df t ! Suc i))"
    by (simp_all add: songs_nth)
  from k have "asc_key (year (canciones_top_rows df t ! i)) \<le>
               asc_key (year (canciones_top_rows df t ! Suc i))"
    by (rule pair_le_fst)
  then show "le_na_last (fst (snd (songsDominatedBy df t ! i)))
                 (fst (snd (songsDominatedBy df t ! Suc i)))"
    by (simp add: n asc_key_le)
  assume "fst (snd (songsDominatedBy df t ! i)) = fst (snd (songsDominatedBy df t ! Suc i))"
  then have ye: "asc_key (year (canciones_top_rows df t ! i)) =
                 asc_key (year (canciones_top_rows df t ! Suc i))"
    by (simp add: n)
  from k ye have "desc_key (dominant_prob (canciones_top_rows df t ! i)) \<le>
               desc_key (dominant_prob (canciones_top_rows df t ! Suc i))"
    by (rule pair_le_snd)
  then show "ge_nan_last (snd (snd (songsDominatedBy df t ! i)))
                     (snd (snd (songsDominatedBy df t ! Suc i)))"
    by (simp add: n desc_key_le)
qed

lemma songs_sample:
  "songsDominatedBy tc_sample 1 =
     [(Txt [67], Some 2001, Some (3/5)), (Txt [70], Some 2005, Some (4/5)),
      (Txt [69], Some 2005, Some (1/2)), (Txt [66], Some 2005, None),
      (Txt [65], None, Some (9/10))]"
  by code_simp

text \<open>
  Claim C10. In the result of \<open>songsDominatedBy\<close> every entry without a year comes after
  every entry with a year.
\<close>

theorem songsDominatedBy_nulls_last:
  "\<forall>i j. i < length (songsDominatedBy df t) \<and> j < length (songsDominatedBy df t) \<and>
         fst (snd (songsDominatedBy df t ! i)) = None \<and>
         fst (snd (songsDominatedBy df t ! j)) \<noteq> None \<longrightarrow> j < i"
proof (intro allI impI)
  fix i j
  assume a: "i < length (songsDominatedBy df t) \<and> j < length (songsDominatedBy df t) \<and>
         fst (snd (songsDominatedBy df t ! i)) = None \<and>
         fst (snd (songsDominatedBy df t ! j)) \<noteq> None"
  then have li: "i < length (canciones_top_rows df t)"
    and lj: "j < length (canciones_top_rows df t)" by (simp_all add: songs_length)
  from a li lj have yi: "year (canciones_top_rows df t ! i) = None"
    and yj: "year (canciones_top_rows df t ! j) \<noteq> None" by (simp_all add: songs_nth)
  show "j < i"
  proof (rule ccontr)
    assume "\<not> j < i"
    then have "i \<le> j" by simp
    from canciones_top_rows_mono [OF this lj]
    have "asc_key (year (canciones_top_rows df t ! i)) \<le>
          asc_key (year (canciones_top_rows df t ! j))"
      by (rule pair_le_fst)
    with yi yj show False by (auto simp: asc_key_def less_eq_prod_def)
  qed
qed

text \<open>
  On the sample the song without a year is the last of topic 1, the song of 2001 the
  first.
\<close>

theorem songsDominatedBy_nulls_last_witness:
  "4 < length (songsDominatedBy tc_sample 1) \<and> 0 < length (songsDominatedBy tc_sample 1) \<and>
   fst (snd (songsDominatedBy tc_sample 1 ! 4)) = None \<and>
   fst (snd (songsDominatedBy tc_sample 1 ! 0)) \<noteq> None \<and> (0 :: nat) < 4"
  using songsDominatedBy_nulls_last [of tc_sample 1] by (simp add: songs_sample)

text \<open>
  On the sample the third and the fourth song of topic 1 are both of 2005, and the fourth
  has no dominant probability.
\<close>

theorem songsDominatedBy_sorted_witness:
  "Suc 2 < length (songsDominatedBy tc_sample 1) \<and>
   fst (snd (songsDominatedBy tc_sample 1 ! 2)) = fst (snd (songsDominatedBy tc_sample 1 ! Suc 2)) \<and>
   ge_nan_last (snd (snd (songsDominatedBy tc_sample 1 ! 2)))
               (snd (snd (songsDominatedBy tc_sample 1 ! Suc 2))) \<and>
   snd (snd (songsDominatedBy tc_sample 1 ! Suc 2)) = None"
proof -
  note q = conjunct2 [OF conjunct2 [OF conjunct2 [OF songsDominatedBy_sorted [of tc_sample 1]]]]
  from spec [OF q, of 2] show ?thesis by (simp add: songs_sample)
qed

text \<open>
  Claim C7 as the specification states it fails on these two entries: they have the same
  year, and the comparison \<open>>=\<close> of 1/2 with NaN is false.
\<close>

theorem songsDominatedBy_nan_not_ge:
  "Suc 2 < length (songsDominatedBy tc_sample 1) \<and>
   fst (snd (songsDominatedBy tc_sample 1 ! 2)) = fst (snd (songsDominatedBy tc_sample 1 ! Suc 2)) \<and>
   \<not> float_ge (snd (snd (songsDominatedBy tc_sample 1 ! 2)))
               (snd (snd (songsDominatedBy tc_sample 1 ! Suc 2)))"
  by (simp add: songs_sample float_ge_def)

section \<open>Means by year\<close>

lemma str_nat_small: "n < 10 \<Longrightarrow> str_nat n = [digit n]"
  by (simp add: str_nat.simps)

lemma str_nat_length: "length (str_nat n) = 1 \<longleftrightarrow> n < 10"
proof (induction n rule: str_nat.induct)
  case (1 n)
  show ?case
  proof (cases "n < 10")
    case True
    then show ?thesis by (simp add: str_nat_small)
  next
    case False
    have "str_nat n = str_nat (n div 10) @ [digit (n mod 10)]"
      using False by (subst str_nat.simps) simp
    moreover have "str_nat (n div 10) \<noteq> []"
      by (subst str_nat.simps) simp
    ultimately show ?thesis using False by (cases "str_nat (n div 10)") auto
  qed
qed

lemma str_int_single:
  assumes "str_int t = [c]"
  shows "0 \<le> t \<and> t < 10"
proof -
  have "length (str_int t) = 1" using assms by simp
  moreover have "str_nat (nat (- t)) \<noteq> []" by (subst str_nat.simps) simp
  ultimately have "0 \<le> t \<and> length (str_nat (nat t)) = 1"
    by (auto simp: str_int_def split: if_splits)
  then show ?thesis using str_nat_length [of "nat t"] by auto
qed

lemma str_int_digits:
  "str_int 0 = ''0''" "str_int 1 = ''1''" "str_int 2 = ''2''" "str_int 3 = ''3''"
  "str_int 4 = ''4''" "str_int 5 = ''5''" "str_int 6 = ''6''" "str_int 7 = ''7''"
  "str_int 8 = ''8''" "str_int 9 = ''9''"
  by (simp_all add: str_int_def str_nat_small digit_def)

lemma topic_column_in_range:
  assumes "1 \<le> t" and "t \<le> 5"
  shows "topic_column (col_topic t) = Some (\<lambda>r. topic_probs r ! nat (t - 1))"
proof -
  from assms have "t = 1 \<or> t = 2 \<or> t = 3 \<or> t = 4 \<or> t = 5" by arith
  then show ?thesis
    by (elim disjE) (simp_all add: topic_column_def col_topic_def str_int_digits topic_probs_def)
qed

lemma topic_column_out_of_range:
  assumes "t < 1 \<or> 5 < t"
  shows "topic_column (col_topic t) = None"
proof (cases "\<exists>c. str_int t = [c]")
  case True
  then have "0 \<le> t \<and> t < 10" using str_int_single by blast
  with assms have "t = 0 \<or> t = 6 \<or> t = 7 \<or> t = 8 \<or> t = 9" by arith
  then show ?thesis
    by (elim disjE) (simp_all add: topic_column_def col_topic_def str_int_digits)
next
  case False
  then show ?thesis by (auto simp: topic_column_def col_topic_def)
qed

lemma groupby_year_keys:
  "map fst (groupby_year df) = sort (remdups (List.map_filter year df))"
  by (simp add: groupby_year_def comp_def)

lemma groupby_year_sorted: "sorted (map fst (groupby_year df))"
  by (simp add: groupby_year_keys)

lemma groupby_year_distinct: "distinct (map fst (groupby_year df))"
  by (simp add: groupby_year_keys)

lemma set_map_filter: "set (List.map_filter f xs) = {y. \<exists>x \<in> set xs. f x = Some y}"
  by (induction xs) (auto split: option.splits)

lemma groupby_year_years:
  "set (map fst (groupby_year df)) = {y. \<exists>r \<in> set df. year r = Some y}"
  by (simp add: groupby_year_keys set_map_filter)

lemma groupby_year_group:
  "(y, grp) \<in> set (groupby_year df) \<Longrightarrow> grp = filter (\<lambda>r. year r = Some y) df"
  by (auto simp: groupby_year_def)

lemma map_Some_inj: "map Some xs = map Some ys \<Longrightarrow> xs = ys"
  by (simp add: inj_map_eq_map)

lemma sort_values_sorted_distinct:
  assumes ok: "argsort_ok a"
    and key: "\<And>r. key r = Some (f r)"
    and srt: "sorted (map f df)" and dist: "distinct (map f df)"
  shows "sort_values a key True df = df"
proof -
  let ?res = "sort_values a key True df"
  have m: "mset ?res = mset df" by (rule sort_values_mset [OF ok])
  from sort_values_keys [OF ok, of key True df]
  obtain vs k where vs: "map key ?res = map Some vs @ replicate k None" and s: "sorted vs"
    by auto
  have "None \<notin> set (map key ?res)" by (auto simp: key)
  with vs have "k = 0" by (cases k) auto
  moreover have "map key ?res = map Some (map f ?res)" by (simp add: key)
  ultimately have "map Some (map f ?res) = map Some vs" using vs by simp
  then have "map f ?res = vs" by (rule map_Some_inj)
  with s have "sorted (map f ?res)" by simp
  moreover have "mset (map f ?res) = mset (map f df)" using m by (metis mset_map)
  ultimately have "sort (map f df) = map f ?res" by (intro properties_for_sort)
  with srt have e: "map f ?res = map f df" by (simp add: sorted_sort_id)
  from m have "set ?res = set df" by (rule mset_eq_setD)
  moreover from dist have "inj_on f (set df)" by (simp add: distinct_map)
  ultimately have "inj_on f (set ?res \<union> set df)" by simp
  with e show ?thesis by (simp add: inj_on_map_eq_map)
qed

lemma sort_values_groups:
  assumes ok: "argsort_ok a"
  shows "sort_values a (\<lambda>(y, m). Some y) True (map (\<lambda>(y, grp). (y, h grp)) (groupby_year df)) =
         map (\<lambda>(y, grp). (y, h grp)) (groupby_year df)"
proof (rule sort_values_sorted_distinct [OF ok, where f = fst])
  show "(case r of (y, m) \<Rightarrow> Some y) = Some (fst r)" for r :: "int \<times> 'a"
    by (cases r) simp
  have "map fst (map (\<lambda>(y, grp). (y, h grp)) (groupby_year df)) = map fst (groupby_year df)"
    by (simp add: comp_def case_prod_unfold)
  then show "sorted (map fst (map (\<lambda>(y, grp). (y, h grp)) (groupby_year df)))"
    "distinct (map fst (map (\<lambda>(y, grp). (y, h grp)) (groupby_year df)))"
    by (simp_all only: groupby_year_sorted groupby_year_distinct)
qed

lemma yearlyMeanForTopic_groups:
  assumes "argsort_ok a" and "1 \<le> t" and "t \<le> 5"
  shows "yearlyMeanForTopic a df t =
     Inr (map (\<lambda>(y, grp). (y, mean (map (\<lambda>r. topic_probs r ! nat (t - 1)) grp)))
            (groupby_year df))"
  by (simp add: yearlyMeanForTopic_def topic_column_in_range [OF assms(2,3)]
      sort_values_groups [OF assms(1)])

lemma yearlyMeanAllTopics_groups:
  assumes "argsort_ok a"
  shows "yearlyMeanAllTopics a df =
     map (\<lambda>(y, grp). (y, map (\<lambda>col. mean (map col grp))
                          [Topic_1, Topic_2, Topic_3, Topic_4, Topic_5]))
       (groupby_year df)"
  unfolding yearlyMeanAllTopics_def by (rule sort_values_groups [OF assms])

lemma map_filter_map: "List.map_filter (\<lambda>v. v) (map f xs) = List.map_filter f xs"
  by (simp add: List.map_filter_def comp_def filter_map)

lemma mean_present:
  "mean (map f xs) =
     (if List.map_filter f xs = [] then None
      else Some (sum_list (List.map_filter f xs) / of_nat (length (List.map_filter f xs))))"
  by (simp add: mean_def map_filter_map Let_def)

text \<open>
  Claim C1. For a topic from 1 to 5, \<open>yearlyMeanForTopic\<close> returns a series in strictly
  ascending order of year, with exactly the years that some row has (rows without a year
  count for none), and the value of a year is the sum of the probabilities of the topic
  over the rows of that year which have one, divided by the number of those rows: a
  missing probability is left out and is not a zero. When no row of the year has one, the
  value is NaN.
\<close>

theorem yearlyMeanForTopic_means:
  assumes "argsort_ok argsort" and "1 \<le> t" and "t \<le> 5"
  shows "\<exists>series. yearlyMeanForTopic argsort df t = Inr series \<and>
           sorted (map fst series) \<and> distinct (map fst series) \<and>
           set (map fst series) = {y. \<exists>r \<in> set df. year r = Some y} \<and>
           (\<forall>(y, m) \<in> set series.
              let present = List.map_filter (\<lambda>r. topic_probs r ! nat (t - 1))
                              (filter (\<lambda>r. year r = Some y) df)
              in m = (if present = [] then None
                      else Some (sum_list present / of_nat (length present))))"
proof -
  let ?col = "\<lambda>r. topic_probs r ! nat (t - 1)"
  let ?series = "map (\<lambda>(y, grp). (y, mean (map ?col grp))) (groupby_year df)"
  have keys: "map fst ?series = map fst (groupby_year df)"
    by (simp add: comp_def case_prod_unfold)
  have "yearlyMeanForTopic argsort df t = Inr ?series"
    by (rule yearlyMeanForTopic_groups [OF assms])
  moreover have "sorted (map fst ?series)" "distinct (map fst ?series)"
    by (simp_all only: keys groupby_year_sorted groupby_year_distinct)
  moreover have "set (map fst ?series) = {y. \<exists>r \<in> set df. year r = Some y}"
    by (simp only: keys groupby_year_years)
  moreover have "\<forall>(y, m) \<in> set ?series.
      let present = List.map_filter ?col (filter (\<lambda>r. year r = Some y) df)
      in m = (if present = [] then None
              else Some (sum_list present / of_nat (length present)))"
  proof (intro ballI, clarify)
    fix y m assume "(y, m) \<in> set ?series"
    then obtain grp where g: "(y, grp) \<in> set (groupby_year df)" and m: "m = mean (map ?col grp)"
      by auto
    from g have "grp = filter (\<lambda>r. year r = Some y) df" by (rule groupby_year_group)
    with m show "let present = List.map_filter ?col (filter (\<lambda>r. year r = Some y) df)
      in m = (if present = [] then None
              else Some (sum_list present / of_nat (length present)))"
      by (simp add: mean_present Let_def)
  qed
  ultimately show ?thesis by blast
qed

lemma yearly_sample_1:
  "yearlyMeanForTopic argsort_stable tc_sample 1 = Inr [(2001, Some (3/5)), (2005, Some (7/15))]"
  by code_simp

text \<open>
  On the sample, topic 1: the row without a year is in no group, and the mean of 2005 is
  taken over the three rows that have a probability, not over the four rows of that year.
\<close>

theorem yearlyMeanForTopic_means_witness:
  "argsort_ok (argsort_stable :: int list \<Rightarrow> nat list) \<and> (1 :: int) \<le> 1 \<and> (1 :: int) \<le> 5 \<and>
   yearlyMeanForTopic argsort_stable tc_sample 1 = Inr [(2001, Some (3/5)), (2005, Some (7/15))] \<and>
   (\<exists>series. yearlyMeanForTopic argsort_stable tc_sample 1 = Inr series \<and>
           sorted (map fst series) \<and> distinct (map fst series) \<and>
           set (map fst series) = {y. \<exists>r \<in> set tc_sample. year r = Some y} \<and>
           (\<forall>(y, m) \<in> set series.
              let present = List.map_filter (\<lambda>r. topic_probs r ! nat (1 - 1))
                              (filter (\<lambda>r. year r = Some y) tc_sample)
              in m = (if present = [] then None
                      else Some (sum_list present / of_nat (length present)))))"
  using yearlyMeanForTopic_means [OF argsort_stable_ok, of 1 tc_sample]
    argsort_stable_ok yearly_sample_1 by simp

lemma means_nth:
  assumes "k < 5"
  shows "map (\<lambda>col. mean (map col grp)) [Topic_1, Topic_2, Topic_3, Topic_4, Topic_5] ! k =
         mean (map (\<lambda>r. topic_probs r ! k) grp)"
proof -
  from assms have "k = 0 \<or> k = 1 \<or> k = 2 \<or> k = 3 \<or> k = 4" by arith
  then show ?thesis by (elim disjE) (simp_all add: topic_probs_def)
qed

text \<open>
  Claim C9. For a topic from 1 to 5 the series of \<open>yearlyMeanForTopic\<close> is the trace of
  that topic in \<open>yearlyMeanAllTopics\<close>: the same years and the same means.
\<close>

theorem yearlyMeanForTopic_is_trace_of_all:
  assumes "argsort_ok argsort" and "1 \<le> t" and "t \<le> 5"
  shows "yearlyMeanForTopic argsort df t =
         Inr (trace_of (nat t) (yearlyMeanAllTopics argsort df))"
proof -
  from assms have k: "nat t - 1 = nat (t - 1)" "nat (t - 1) < 5" by simp_all
  have "trace_of (nat t) Y = map (\<lambda>(y, ms). (y, ms ! nat (t - 1))) Y" for Y
    by (simp only: trace_of_def k(1))
  then have "trace_of (nat t) (yearlyMeanAllTopics argsort df) =
        map (\<lambda>(y, grp). (y, mean (map (\<lambda>r. topic_probs r ! nat (t - 1)) grp))) (groupby_year df)"
    by (simp add: yearlyMeanAllTopics_groups [OF assms(1)] means_nth [OF k(2)]
        comp_def case_prod_unfold del: list.map)
  then show ?thesis by (simp only: yearlyMeanForTopic_groups [OF assms])
qed

lemma all_sample:
  "yearlyMeanAllTopics argsort_stable tc_sample =
     [(2001, [Some (3/5), Some (1/5), Some 0, Some 0, None]),
      (2005, [Some (7/15), Some (33/80), Some 0, Some 0, Some (1/3)])]"
  by code_simp

text \<open>On the sample, topic 5, which has no probability at all in 2001.\<close>

theorem yearlyMeanForTopic_is_trace_of_all_witness:
  "argsort_ok (argsort_stable :: int list \<Rightarrow> nat list) \<and> (1 :: int) \<le> 5 \<and> (5 :: int) \<le> 5 \<and>
   yearlyMeanForTopic argsort_stable tc_sample 5 =
     Inr (trace_of (nat 5) (yearlyMeanAllTopics argsort_stable tc_sample)) \<and>
   trace_of (nat 5) (yearlyMeanAllTopics argsort_stable tc_sample) =
     [(2001, None), (2005, Some (1/3))]"
  using yearlyMeanForTopic_is_trace_of_all [OF argsort_stable_ok, of 5 tc_sample]
    argsort_stable_ok by (simp add: all_sample trace_of_def)

lemma sort_values_Nil: "argsort_ok a \<Longrightarrow> sort_values a key asc [] = []"
  using sort_values_mset [of a key asc "[]"] by simp

text \<open>
  Claim C5, as amended. For a topic id outside 1 to 5 the frame has no such column and
  the query of the yearly means raises \<open>KeyError\<close>; for a topic id that no row of the topic
  words has, the query of the keywords returns the empty list. (The distribution of a
  song is computed for the topics 1 to 5 of the row and takes no topic id.)
\<close>

theorem out_of_range_queries:
  "(t < 1 \<or> 5 < t \<longrightarrow>
      yearlyMeanForTopic argsort df t = Inl (KeyError (''Column not found: '' @ col_topic t))) \<and>
   (argsort_ok argsort' \<and> top_id \<notin> topic ` set topic_words \<longrightarrow>
      topicKeywords argsort' topic_words top_id n_pal = [])"
proof (intro conjI impI)
  assume "t < 1 \<or> 5 < t"
  then show "yearlyMeanForTopic argsort df t =
      Inl (KeyError (''Column not found: '' @ col_topic t))"
    by (simp add: yearlyMeanForTopic_def topic_column_out_of_range)
next
  assume a: "argsort_ok argsort' \<and> top_id \<notin> topic ` set topic_words"
  then have "filter (\<lambda>r. topic r = top_id) topic_words = []"
    by (auto simp: filter_empty_conv)
  with a show "topicKeywords argsort' topic_words top_id n_pal = []"
    by (simp add: topicKeywords_def sort_values_Nil)
qed

text \<open>On the samples: topic 7 for the yearly means, topic 9 for the keywords.\<close>

theorem out_of_range_queries_witness:
  "((7 :: int) < 1 \<or> (5 :: int) < 7) \<and>
   yearlyMeanForTopic argsort_stable tc_sample 7 = Inl (KeyError ''Column not found: Topic_7'') \<and>
   argsort_ok (argsort_stable :: rat list \<Rightarrow> nat list) \<and> 9 \<notin> topic ` set tw_sample \<and>
   topicKeywords argsort_stable tw_sample 9 12 = []"
proof -
  have n: "9 \<notin> topic ` set tw_sample" by (simp add: tw_sample_def)
  have ok: "argsort_ok (argsort_stable :: rat list \<Rightarrow> nat list)" by (rule argsort_stable_ok)
  have c: "col_topic 7 = ''Topic_7''" by (simp add: col_topic_def str_int_digits)
  from out_of_range_queries [of 7 argsort_stable tc_sample argsort_stable 9 tw_sample 12]
    ok n c show ?thesis by simp
qed

text \<open>
  Claim C5 as the specification states it fails for the yearly means: for topic 7 the
  result is an exception, not an empty series.
\<close>

theorem yearlyMeanForTopic_raises_KeyError:
  "yearlyMeanForTopic argsort_stable tc_sample 7 = Inl (KeyError ''Column not found: Topic_7'') \<and>
   yearlyMeanForTopic argsort_stable tc_sample 7 \<noteq> Inr []"
  by (simp add: yearlyMeanForTopic_def col_topic_def str_int_digits topic_column_def)

end
